theory Spec2Isabelle
  imports Complex_Main "HOL-Library.Char_ord" "HOL-Library.List_Lexorder"
    "HOL-Library.Product_Lexorder"
begin

section \<open>The layoffs dashboard (streamlit.py)\<close>

text \<open>
  The script reads a table of layoff events, repairs it in \<open>load_data\<close> and derives a
  fixed sequence of grouped, sorted and truncated tables from it. The data frame is a list
  of rows in file order. The numbers of the three numeric columns are exact rationals;
  \<open>None\<close> is the missing value (NaN). The five text columns and the date column are
  present in every row. The functions of the data-frame library that the script calls
  (\<open>mean\<close>, \<open>fillna\<close>, \<open>replace\<close>, \<open>to_datetime\<close>, \<open>groupby\<close>, \<open>sum\<close>,
  \<open>sort_values\<close>, \<open>head\<close>) are written out as the library documents them.
\<close>

subsection \<open>Data model\<close>

record datetime =
  year :: int
  month :: nat
  day :: nat

text \<open>A cell of the Date column: text as read from the file, or a parsed date.\<close>

datatype date_cell = Str string | Dt datetime

record row =
  Company :: string
  Industry :: string
  Country :: string
  Location_HQ :: string
  Stage :: string
  Date :: date_cell
  Laid_Off_Count :: "rat option"
  Funds_Raised :: "rat option"
  Percentage :: "rat option"

type_synonym frame = "row list"

text \<open>
  \<open>ValueError\<close>: \<open>pd.to_datetime\<close> meets a text it cannot parse.
  \<open>AttributeError\<close>: the \<open>.dt\<close> accessor is used on a column that holds text.
\<close>

datatype error = ValueError | AttributeError

definition bind_result :: "error + 'a \<Rightarrow> ('a \<Rightarrow> error + 'b) \<Rightarrow> error + 'b" where
  "bind_result m f = (case m of Inl e \<Rightarrow> Inl e | Inr x \<Rightarrow> f x)"

subsection \<open>Column operations of the library\<close>

text \<open>The non-missing values of a column.\<close>

fun dropna :: "rat option list \<Rightarrow> rat list" where
  "dropna [] = []"
| "dropna (None # cs) = dropna cs"
| "dropna (Some x # cs) = x # dropna cs"

text \<open>
  \<open>Series.mean()\<close> skips the missing values; over no value at all the result is NaN.
\<close>

definition mean :: "rat option list \<Rightarrow> rat option" where
  "mean col = (let vs = dropna col in
     if vs = [] then None else Some (sum_list vs / of_nat (length vs)))"

text \<open>\<open>fillna(v)\<close> on one cell: a missing cell takes \<open>v\<close> (which may itself be NaN).\<close>

fun fillna :: "rat option \<Rightarrow> rat option \<Rightarrow> rat option" where
  "fillna v None = v"
| "fillna v (Some x) = Some x"

text \<open>\<open>Series.sum()\<close> skips the missing values; the empty sum is 0.\<close>

definition nansum :: "rat option list \<Rightarrow> rat" where
  "nansum col = sum_list (dropna col)"

text \<open>
  \<open>pd.to_datetime\<close> on a column: a text cell is parsed by the library's parser
  (a parameter here), a cell that is a date already is kept; one unparseable text
  raises.
\<close>

fun to_datetime :: "(string \<Rightarrow> datetime option) \<Rightarrow> date_cell list \<Rightarrow> error + date_cell list" where
  "to_datetime parse [] = Inr []"
| "to_datetime parse (Dt d # cs) =
     (case to_datetime parse cs of Inl e \<Rightarrow> Inl e | Inr ds \<Rightarrow> Inr (Dt d # ds))"
| "to_datetime parse (Str s # cs) =
     (case parse s of None \<Rightarrow> Inl ValueError
      | Some d \<Rightarrow> (case to_datetime parse cs of Inl e \<Rightarrow> Inl e | Inr ds \<Rightarrow> Inr (Dt d # ds)))"

text \<open>\<open>df['Date'] = col\<close>: the column is written back row by row.\<close>

definition assign_Date :: "frame \<Rightarrow> date_cell list \<Rightarrow> frame" where
  "assign_Date df col = map (\<lambda>(r, c). r\<lparr>Date := c\<rparr>) (zip df col)"

text \<open>\<open>Series.replace({old: new})\<close> on one cell.\<close>

definition replace_value :: "string \<Rightarrow> string \<Rightarrow> string \<Rightarrow> string" where
  "replace_value old new c = (if c = old then new else c)"

subsection \<open>The loader\<close>

text \<open>
  Lines 18 to 20: each numeric column is filled in place with its own mean. The in-place
  fill of the selected column writes through to the frame, as the library does without
  copy-on-write.
\<close>

definition fill_Laid_Off_Count :: "frame \<Rightarrow> frame" where
  "fill_Laid_Off_Count df = (let m = mean (map Laid_Off_Count df) in
     map (\<lambda>r. r\<lparr>Laid_Off_Count := fillna m (Laid_Off_Count r)\<rparr>) df)"

definition fill_Funds_Raised :: "frame \<Rightarrow> frame" where
  "fill_Funds_Raised df = (let m = mean (map Funds_Raised df) in
     map (\<lambda>r. r\<lparr>Funds_Raised := fillna m (Funds_Raised r)\<rparr>) df)"

definition fill_Percentage :: "frame \<Rightarrow> frame" where
  "fill_Percentage df = (let m = mean (map Percentage df) in
     map (\<lambda>r. r\<lparr>Percentage := fillna m (Percentage r)\<rparr>) df)"

text \<open>Line 24: the country names are standardised.\<close>

definition normalize_Country :: "frame \<Rightarrow> frame" where
  "normalize_Country df =
     map (\<lambda>r. r\<lparr>Country := replace_value ''United States'' ''United States of America'' (Country r)\<rparr>) df"

text \<open>
  \<open>load_data\<close>, lines 16 to 26, on the frame that \<open>read_csv\<close> returned.
\<close>

definition load_data :: "(string \<Rightarrow> datetime option) \<Rightarrow> frame \<Rightarrow> error + frame" where
  "load_data parse raw =
     (let df1 = fill_Laid_Off_Count raw;
          df2 = fill_Funds_Raised df1;
          df3 = fill_Percentage df2
      in bind_result (to_datetime parse (map Date df3))
           (\<lambda>dates. Inr (normalize_Country (assign_Date df3 dates))))"

text \<open>
  The decorator \<open>@st.cache\<close> of line 15: the session keeps the source file and the
  memo of the one call \<open>load_data()\<close>. A call that finds the memo returns it; a call
  that raises stores nothing.
\<close>

record session =
  source :: frame
  memo :: "frame option"

definition load_data_cached ::
  "(string \<Rightarrow> datetime option) \<Rightarrow> session \<Rightarrow> (error + frame) \<times> session" where
  "load_data_cached parse s =
     (case memo s of
        Some df \<Rightarrow> (Inr df, s)
      | None \<Rightarrow>
         (case load_data parse (source s) of
            Inl e \<Rightarrow> (Inl e, s)
          | Inr df \<Rightarrow> (Inr df, s\<lparr>memo := Some df\<rparr>)))"

subsection \<open>Grouping, sorting and indexing of the library\<close>

text \<open>
  \<open>groupby(key)[col].sum()\<close> on the pairs of key and value of the rows: one row for
  each distinct key, the keys in ascending order (\<open>sort=True\<close> is the default of
  \<open>groupby\<close>), the value the sum of the group's non-missing values.
\<close>

definition group_sum :: "('k::linorder \<times> rat option) list \<Rightarrow> ('k \<times> rat) list" where
  "group_sum kvs =
     map (\<lambda>k. (k, nansum (map snd (filter (\<lambda>kv. fst kv = k) kvs))))
       (sort (remdups (map fst kvs)))"

text \<open>
  \<open>sort_values(ascending=False)\<close> on the summed column. The library reverses the
  rows, sorts them in ascending order of the value and reverses the result. The order of
  rows with equal values is that of the sorting algorithm; the library's default
  (\<open>kind='quicksort'\<close>) does not promise one. The order-preserving algorithm is taken
  here (\<open>sort_key\<close> is insertion sort), which is what the default does on short columns.
\<close>

definition sort_values_desc :: "('k \<times> rat) list \<Rightarrow> ('k \<times> rat) list" where
  "sort_values_desc t = rev (sort_key snd (rev t))"

text \<open>\<open>df[mask]\<close>: the rows whose entry in the boolean column is true, in order.\<close>

definition boolean_index :: "'a list \<Rightarrow> bool list \<Rightarrow> 'a list" where
  "boolean_index df keep = map fst (filter snd (zip df keep))"

text \<open>\<open>col.dt.year\<close>: the years of a column of dates; a column holding text raises.\<close>

fun dt_year :: "date_cell list \<Rightarrow> error + int list" where
  "dt_year [] = Inr []"
| "dt_year (Str s # cs) = Inl AttributeError"
| "dt_year (Dt d # cs) =
     (case dt_year cs of Inl e \<Rightarrow> Inl e | Inr ys \<Rightarrow> Inr (year d # ys))"

text \<open>
  Division and multiplication of the library's floating-point numbers as far as the
  script needs them: a quotient by zero is NaN for a zero numerator and an infinity
  otherwise.
\<close>

datatype fval = Fin rat | NaN | PInf | NInf

definition float_div :: "rat \<Rightarrow> rat \<Rightarrow> fval" where
  "float_div a b =
     (if b \<noteq> 0 then Fin (a / b)
      else if a = 0 then NaN
      else if 0 < a then PInf else NInf)"

fun float_times :: "fval \<Rightarrow> rat \<Rightarrow> fval" where
  "float_times (Fin x) c = Fin (x * c)"
| "float_times NaN c = NaN"
| "float_times PInf c = (if 0 < c then PInf else if c < 0 then NInf else NaN)"
| "float_times NInf c = (if 0 < c then NInf else if c < 0 then PInf else NaN)"

subsection \<open>The derived tables of the script\<close>

text \<open>Line 47: the rows of the selected industry and country.\<close>

definition df_filtered :: "string \<Rightarrow> string \<Rightarrow> frame \<Rightarrow> frame" where
  "df_filtered industry_filter country_filter df =
     boolean_index df
       (map (\<lambda>r. Industry r = industry_filter \<and> Country r = country_filter) df)"

text \<open>Lines 53 to 59.\<close>

definition top_countries :: "frame \<Rightarrow> (string \<times> rat) list" where
  "top_countries df =
     take 5 (sort_values_desc (group_sum (map (\<lambda>r. (Country r, Laid_Off_Count r)) df)))"

text \<open>Lines 75 and 78.\<close>

definition country_layoffs :: "frame \<Rightarrow> (string \<times> rat) list" where
  "country_layoffs df =
     sort_values_desc (group_sum (map (\<lambda>r. (Country r, Laid_Off_Count r)) df))"

text \<open>Line 118.\<close>

definition df_recent_years :: "frame \<Rightarrow> error + frame" where
  "df_recent_years df =
     bind_result (dt_year (map Date df)) (\<lambda>ys.
       Inr (boolean_index df
              (map (\<lambda>(y, r). (y = 2022 \<or> y = 2023) \<and> Industry r \<noteq> ''Other'') (zip ys df))))"

text \<open>Lines 121 to 127.\<close>

definition top_industries_recent :: "frame \<Rightarrow> error + (string \<times> rat) list" where
  "top_industries_recent df =
     bind_result (df_recent_years df) (\<lambda>d.
       Inr (take 5 (sort_values_desc (group_sum (map (\<lambda>r. (Industry r, Laid_Off_Count r)) d)))))"

text \<open>
  Lines 151 and 152, on the frame of line 47: the sums by year, the years ascending.
\<close>

definition df_time_series :: "frame \<Rightarrow> error + (int \<times> rat) list" where
  "df_time_series dff =
     bind_result (dt_year (map Date dff)) (\<lambda>ys.
       Inr (group_sum (zip ys (map Laid_Off_Count dff))))"

text \<open>Line 169.\<close>

definition top_companies :: "frame \<Rightarrow> (string \<times> rat) list" where
  "top_companies df =
     take 10 (sort_values_desc (group_sum (map (\<lambda>r. (Company r, Laid_Off_Count r)) df)))"

text \<open>Line 171: the Date column is converted again and written back.\<close>

definition ensure_datetime :: "(string \<Rightarrow> datetime option) \<Rightarrow> frame \<Rightarrow> error + frame" where
  "ensure_datetime parse df =
     bind_result (to_datetime parse (map Date df)) (\<lambda>dates. Inr (assign_Date df dates))"

text \<open>Line 172: \<open>df_filtered\<close> is assigned again, now the rows since 2020.\<close>

definition df_since_2020 :: "frame \<Rightarrow> error + frame" where
  "df_since_2020 df =
     bind_result (dt_year (map Date df)) (\<lambda>ys.
       Inr (boolean_index df (map (\<lambda>y. 2020 \<le> y) ys)))"

type_synonym company_key = "string \<times> string \<times> string \<times> string"

text \<open>Lines 175 to 179, on the frame of line 172: the sums by company, industry, seat and country.\<close>

definition top_companies_sums :: "frame \<Rightarrow> (company_key \<times> rat) list" where
  "top_companies_sums dff =
     group_sum
       (map (\<lambda>r. ((Company r, Industry r, Location_HQ r, Country r), Laid_Off_Count r)) dff)"

text \<open>Line 182: sorted, and cut to the first 50 rows.\<close>

definition top_companies_head :: "frame \<Rightarrow> (company_key \<times> rat) list" where
  "top_companies_head dff = take 50 (sort_values_desc (top_companies_sums dff))"

text \<open>
  Line 185: the Percentage column is appended to the table of line 182. A row of the
  result is the key, the summed count and the percentage.
\<close>

definition top_companies_data :: "frame \<Rightarrow> (company_key \<times> rat \<times> fval) list" where
  "top_companies_data dff =
     (let t = top_companies_head dff;
          total = sum_list (map snd t)
      in map (\<lambda>(k, v). (k, v, float_times (float_div v total) 100)) t)"

text \<open>Lines 237 to 241, on the frame of line 172.\<close>

definition top_companies_filtered :: "string \<Rightarrow> frame \<Rightarrow> ((string \<times> string) \<times> rat) list" where
  "top_companies_filtered industry_filter dff =
     take 10 (sort_values_desc (group_sum
       (map (\<lambda>r. ((Company r, Industry r), Laid_Off_Count r))
          (boolean_index dff (map (\<lambda>r. Industry r = industry_filter) dff)))))"

text \<open>Lines 286 to 290.\<close>

definition valid_stages :: "string list" where
  "valid_stages = [''Acquired'', ''Post-IPO'', ''Private Equity'', ''Seed'']"

definition stage_layoffs :: "frame \<Rightarrow> (string \<times> rat) list" where
  "stage_layoffs df =
     group_sum (map (\<lambda>r. (Stage r, Laid_Off_Count r))
       (boolean_index df (map (\<lambda>r. Stage r \<in> set valid_stages) df)))"

subsection \<open>The script as a sequence of assignments\<close>

text \<open>
  The variables of the script after line 29. A step assigns one variable (or, at line
  171, one column of \<open>df\<close>) and may raise. The calls that draw a table read it and
  assign nothing.
\<close>

record script_state =
  v_df :: frame
  v_df_filtered :: frame
  v_top_countries :: "(string \<times> rat) list"
  v_country_layoffs :: "(string \<times> rat) list"
  v_top_industries_recent :: "(string \<times> rat) list"
  v_df_time_series :: "(int \<times> rat) list"
  v_top_companies :: "(string \<times> rat) list"
  v_top_companies_data :: "(company_key \<times> rat \<times> fval) list"
  v_top_companies_filtered :: "((string \<times> string) \<times> rat) list"
  v_stage_layoffs :: "(string \<times> rat) list"

definition initial_state :: "frame \<Rightarrow> script_state" where
  "initial_state d =
     \<lparr>v_df = d, v_df_filtered = [], v_top_countries = [], v_country_layoffs = [],
      v_top_industries_recent = [], v_df_time_series = [], v_top_companies = [],
      v_top_companies_data = [], v_top_companies_filtered = [], v_stage_layoffs = []\<rparr>"

type_synonym step = "script_state \<Rightarrow> error + script_state"

definition line_47 :: "string \<Rightarrow> string \<Rightarrow> step" where
  "line_47 industry_filter country_filter s =
     Inr (s\<lparr>v_df_filtered := df_filtered industry_filter country_filter (v_df s)\<rparr>)"

definition line_53 :: step where
  "line_53 s = Inr (s\<lparr>v_top_countries := top_countries (v_df s)\<rparr>)"

definition line_75 :: step where
  "line_75 s = Inr (s\<lparr>v_country_layoffs := country_layoffs (v_df s)\<rparr>)"

definition line_121 :: step where
  "line_121 s = bind_result (top_industries_recent (v_df s))
     (\<lambda>t. Inr (s\<lparr>v_top_industries_recent := t\<rparr>))"

definition line_151 :: step where
  "line_151 s = bind_result (df_time_series (v_df_filtered s))
     (\<lambda>t. Inr (s\<lparr>v_df_time_series := t\<rparr>))"

definition line_169 :: step where
  "line_169 s = Inr (s\<lparr>v_top_companies := top_companies (v_df s)\<rparr>)"

definition line_171 :: "(string \<Rightarrow> datetime option) \<Rightarrow> step" where
  "line_171 parse s = bind_result (ensure_datetime parse (v_df s))
     (\<lambda>d. Inr (s\<lparr>v_df := d\<rparr>))"

definition line_172 :: step where
  "line_172 s = bind_result (df_since_2020 (v_df s))
     (\<lambda>d. Inr (s\<lparr>v_df_filtered := d\<rparr>))"

definition line_175 :: step where
  "line_175 s = Inr (s\<lparr>v_top_companies_data := top_companies_data (v_df_filtered s)\<rparr>)"

definition line_237 :: "string \<Rightarrow> step" where
  "line_237 industry_filter s =
     Inr (s\<lparr>v_top_companies_filtered := top_companies_filtered industry_filter (v_df_filtered s)\<rparr>)"

definition line_287 :: step where
  "line_287 s = Inr (s\<lparr>v_stage_layoffs := stage_layoffs (v_df s)\<rparr>)"

definition script :: "(string \<Rightarrow> datetime option) \<Rightarrow> string \<Rightarrow> string \<Rightarrow> step list" where
  "script parse industry_filter country_filter =
     [line_47 industry_filter country_filter, line_53, line_75, line_121, line_151,
      line_169, line_171 parse, line_172, line_175, line_237 industry_filter, line_287]"

fun run :: "step list \<Rightarrow> script_state \<Rightarrow> error + script_state" where
  "run [] s = Inr s"
| "run (f # fs) s = (case f s of Inl e \<Rightarrow> Inl e | Inr s' \<Rightarrow> run fs s')"

text \<open>The whole script from line 29 on, for the two selections of the sidebar.\<close>

definition dashboard ::
  "(string \<Rightarrow> datetime option) \<Rightarrow> string \<Rightarrow> string \<Rightarrow> frame \<Rightarrow> error + script_state" where
  "dashboard parse industry_filter country_filter raw =
     bind_result (load_data parse raw)
       (\<lambda>d. run (script parse industry_filter country_filter) (initial_state d))"

subsection \<open>What the claims speak of\<close>

text \<open>
  A filled cell as the specification words it: a cell that was missing holds the
  arithmetic mean of the non-missing values of the raw column, a cell that had a value
  holds that value.
\<close>

definition mean_filled :: "rat option list \<Rightarrow> rat option \<Rightarrow> rat option \<Rightarrow> bool" where
  "mean_filled col raw_cell cell =
     (case raw_cell of
        None \<Rightarrow> cell = Some (sum_list (dropna col) / of_nat (length (dropna col)))
      | Some x \<Rightarrow> cell = Some x)"

text \<open>
  The year of a row whose date is parsed. A loaded frame holds no text in the Date
  column; 0 stands for such a cell.
\<close>

definition row_year :: "row \<Rightarrow> int" where
  "row_year r = (case Date r of Dt d \<Rightarrow> year d | Str s \<Rightarrow> 0)"



subsection \<open>Concrete inputs\<close>

text \<open>A parser that knows three dates, and small frames as \<open>read_csv\<close> returns them.\<close>

definition ex_parse :: "string \<Rightarrow> datetime option" where
  "ex_parse s =
     (if s = ''2019-06-01'' then Some \<lparr>year = 2019, month = 6, day = 1\<rparr>
      else if s = ''2021-03-01'' then Some \<lparr>year = 2021, month = 3, day = 1\<rparr>
      else if s = ''2022-11-09'' then Some \<lparr>year = 2022, month = 11, day = 9\<rparr>
      else None)"

definition ex_raw :: frame where
  "ex_raw =
     [\<lparr>Company = ''Acme'', Industry = ''Retail'', Country = ''India'', Location_HQ = ''Pune'',
       Stage = ''Seed'', Date = Str ''2021-03-01'', Laid_Off_Count = Some 5,
       Funds_Raised = Some 10, Percentage = None\<rparr>,
      \<lparr>Company = ''Birch'', Industry = ''Retail'', Country = ''Canada'', Location_HQ = ''Toronto'',
       Stage = ''Post-IPO'', Date = Str ''2021-03-01'', Laid_Off_Count = None,
       Funds_Raised = None, Percentage = Some (1 / 4)\<rparr>,
      \<lparr>Company = ''Cobalt'', Industry = ''Finance'', Country = ''United States'',
       Location_HQ = ''Boston'', Stage = ''Series B'', Date = Str ''2022-11-09'',
       Laid_Off_Count = Some 8, Funds_Raised = Some 30, Percentage = Some (3 / 4)\<rparr>]"

definition ex_loaded :: frame where
  "ex_loaded =
     [\<lparr>Company = ''Acme'', Industry = ''Retail'', Country = ''India'', Location_HQ = ''Pune'',
       Stage = ''Seed'', Date = Dt \<lparr>year = 2021, month = 3, day = 1\<rparr>,
       Laid_Off_Count = Some 5, Funds_Raised = Some 10, Percentage = Some (1 / 2)\<rparr>,
      \<lparr>Company = ''Birch'', Industry = ''Retail'', Country = ''Canada'', Location_HQ = ''Toronto'',
       Stage = ''Post-IPO'', Date = Dt \<lparr>year = 2021, month = 3, day = 1\<rparr>,
       Laid_Off_Count = Some (13 / 2), Funds_Raised = Some 20, Percentage = Some (1 / 4)\<rparr>,
      \<lparr>Company = ''Cobalt'', Industry = ''Finance'', Country = ''United States of America'',
       Location_HQ = ''Boston'', Stage = ''Series B'',
       Date = Dt \<lparr>year = 2022, month = 11, day = 9\<rparr>,
       Laid_Off_Count = Some 8, Funds_Raised = Some 30, Percentage = Some (3 / 4)\<rparr>]"

text \<open>One event whose three numeric cells are all missing.\<close>

definition ex_missing :: frame where
  "ex_missing =
     [\<lparr>Company = ''Acme'', Industry = ''Retail'', Country = ''India'', Location_HQ = ''Pune'',
       Stage = ''Seed'', Date = Str ''2021-03-01'', Laid_Off_Count = None,
       Funds_Raised = None, Percentage = None\<rparr>]"



text \<open>The variables of the script at its end, on \<open>ex_raw\<close> with Finance and India selected.\<close>

definition ex_final :: script_state where
  "ex_final =
     \<lparr>v_df = ex_loaded,
      v_df_filtered = ex_loaded,
      v_top_countries = [(''United States of America'', 8), (''Canada'', 13 / 2), (''India'', 5)],
      v_country_layoffs = [(''United States of America'', 8), (''Canada'', 13 / 2), (''India'', 5)],
      v_top_industries_recent = [(''Finance'', 8)],
      v_df_time_series = [],
      v_top_companies = [(''Cobalt'', 8), (''Birch'', 13 / 2), (''Acme'', 5)],
      v_top_companies_data =
        [((''Cobalt'', ''Finance'', ''Boston'', ''United States of America''), 8, Fin (1600 / 39)),
         ((''Birch'', ''Retail'', ''Toronto'', ''Canada''), 13 / 2, Fin (100 / 3)),
         ((''Acme'', ''Retail'', ''Pune'', ''India''), 5, Fin (1000 / 39))],
      v_top_companies_filtered = [((''Cobalt'', ''Finance''), 8)],
      v_stage_layoffs = [(''Post-IPO'', 13 / 2), (''Seed'', 5)]\<rparr>"

section \<open>Properties of the loader\<close>

lemma bind_result_Inr:
  "bind_result m f = Inr y \<longleftrightarrow> (\<exists>x. m = Inr x \<and> f x = Inr y)"
  by (cases m) (simp_all add: bind_result_def)

lemma to_datetime_length: "to_datetime parse cs = Inr ds \<Longrightarrow> length ds = length cs"
  by (induction parse cs arbitrary: ds rule: to_datetime.induct)
     (auto split: sum.splits option.splits)

lemma to_datetime_is_Dt: "to_datetime parse cs = Inr ds \<Longrightarrow> \<forall>c\<in>set ds. \<exists>d. c = Dt d"
  by (induction parse cs arbitrary: ds rule: to_datetime.induct)
     (auto split: sum.splits option.splits)

lemma to_datetime_Dt_id: "\<forall>c\<in>set cs. \<exists>d. c = Dt d \<Longrightarrow> to_datetime parse cs = Inr cs"
  by (induction cs) auto

lemma dropna_Nil_iff: "dropna col = [] \<longleftrightarrow> (\<forall>c\<in>set col. c = None)"
  by (induction col rule: dropna.induct) auto

lemma mean_None_iff: "mean col = None \<longleftrightarrow> (\<forall>c\<in>set col. c = None)"
  by (simp add: mean_def Let_def dropna_Nil_iff)

lemma fillna_None_iff: "fillna v c = None \<longleftrightarrow> c = None \<and> v = None"
  by (cases c) simp_all

lemma length_assign_Date: "length (assign_Date df col) = min (length df) (length col)"
  by (simp add: assign_Date_def)

lemma nth_assign_Date:
  "i < length df \<Longrightarrow> i < length col \<Longrightarrow> assign_Date df col ! i = (df ! i)\<lparr>Date := col ! i\<rparr>"
  by (simp add: assign_Date_def)

text \<open>The rows of a successful load, field by field.\<close>

lemma load_data_rows:
  assumes "load_data parse raw = Inr df"
  shows "length df = length raw"
    and "i < length raw \<Longrightarrow>
      \<exists>d. df ! i = (raw ! i)
        \<lparr>Laid_Off_Count := fillna (mean (map Laid_Off_Count raw)) (Laid_Off_Count (raw ! i)),
         Funds_Raised := fillna (mean (map Funds_Raised raw)) (Funds_Raised (raw ! i)),
         Percentage := fillna (mean (map Percentage raw)) (Percentage (raw ! i)),
         Date := Dt d,
         Country := replace_value ''United States'' ''United States of America'' (Country (raw ! i))\<rparr>"
proof -
  define df3 where "df3 = fill_Percentage (fill_Funds_Raised (fill_Laid_Off_Count raw))"
  from assms obtain dates where dates: "to_datetime parse (map Date df3) = Inr dates"
    and df: "df = normalize_Country (assign_Date df3 dates)"
    by (auto simp: load_data_def Let_def bind_result_Inr df3_def)
  have len3: "length df3 = length raw"
    by (simp add: df3_def fill_Percentage_def fill_Funds_Raised_def fill_Laid_Off_Count_def Let_def)
  have lend: "length dates = length raw"
    using to_datetime_length[OF dates] len3 by simp
  show "length df = length raw"
    by (simp add: df normalize_Country_def length_assign_Date len3 lend)
  assume i: "i < length raw"
  have m2: "map Funds_Raised (fill_Laid_Off_Count raw) = map Funds_Raised raw"
    by (simp add: fill_Laid_Off_Count_def Let_def)
  have m3: "map Percentage (fill_Funds_Raised (fill_Laid_Off_Count raw)) = map Percentage raw"
    by (simp add: fill_Laid_Off_Count_def fill_Funds_Raised_def Let_def)
  have r3: "df3 ! i = (raw ! i)
        \<lparr>Laid_Off_Count := fillna (mean (map Laid_Off_Count raw)) (Laid_Off_Count (raw ! i)),
         Funds_Raised := fillna (mean (map Funds_Raised raw)) (Funds_Raised (raw ! i)),
         Percentage := fillna (mean (map Percentage raw)) (Percentage (raw ! i))\<rparr>"
    unfolding df3_def
    using i
    by (simp add: fill_Percentage_def[of "fill_Funds_Raised (fill_Laid_Off_Count raw)"] m3 Let_def)
       (simp add: fill_Funds_Raised_def[of "fill_Laid_Off_Count raw"] m2 Let_def,
        simp add: fill_Laid_Off_Count_def Let_def)
  from to_datetime_is_Dt[OF dates] i lend obtain d where d: "dates ! i = Dt d"
    by (metis nth_mem)
  have "df ! i = (df3 ! i)\<lparr>Date := Dt d,
      Country := replace_value ''United States'' ''United States of America'' (Country (df3 ! i))\<rparr>"
    using i len3 lend d by (simp add: df normalize_Country_def length_assign_Date nth_assign_Date)
  then show "\<exists>d. df ! i = (raw ! i)
        \<lparr>Laid_Off_Count := fillna (mean (map Laid_Off_Count raw)) (Laid_Off_Count (raw ! i)),
         Funds_Raised := fillna (mean (map Funds_Raised raw)) (Funds_Raised (raw ! i)),
         Percentage := fillna (mean (map Percentage raw)) (Percentage (raw ! i)),
         Date := Dt d,
         Country := replace_value ''United States'' ''United States of America'' (Country (raw ! i))\<rparr>"
    by (auto simp: r3)
qed

text \<open>
  C1, as the code has it. When \<open>load_data\<close> returns, the frame has as many rows as the
  raw one, and for each of Laid_Off_Count, Funds_Raised and Percentage whose raw column
  holds at least one non-missing value: no cell of the returned column is missing, a cell
  that was missing holds the arithmetic mean of the non-missing raw values of that column
  over the whole frame, and a cell that had a value holds it unchanged.
\<close>

theorem load_data_mean_fill:
  assumes "load_data parse raw = Inr df" and "i < length raw"
  shows "length df = length raw \<and>
    (dropna (map Laid_Off_Count raw) \<noteq> [] \<longrightarrow>
       Laid_Off_Count (df ! i) \<noteq> None \<and>
       mean_filled (map Laid_Off_Count raw) (Laid_Off_Count (raw ! i)) (Laid_Off_Count (df ! i))) \<and>
    (dropna (map Funds_Raised raw) \<noteq> [] \<longrightarrow>
       Funds_Raised (df ! i) \<noteq> None \<and>
       mean_filled (map Funds_Raised raw) (Funds_Raised (raw ! i)) (Funds_Raised (df ! i))) \<and>
    (dropna (map Percentage raw) \<noteq> [] \<longrightarrow>
       Percentage (df ! i) \<noteq> None \<and>
       mean_filled (map Percentage raw) (Percentage (raw ! i)) (Percentage (df ! i)))"
proof -
  have fill: "dropna col \<noteq> [] \<Longrightarrow>
      fillna (mean col) c \<noteq> None \<and> mean_filled col c (fillna (mean col) c)" for col c
    by (cases c) (simp_all add: mean_def mean_filled_def Let_def)
  from load_data_rows(2)[OF assms] obtain d where
    "df ! i = (raw ! i)
        \<lparr>Laid_Off_Count := fillna (mean (map Laid_Off_Count raw)) (Laid_Off_Count (raw ! i)),
         Funds_Raised := fillna (mean (map Funds_Raised raw)) (Funds_Raised (raw ! i)),
         Percentage := fillna (mean (map Percentage raw)) (Percentage (raw ! i)),
         Date := Dt d,
         Country := replace_value ''United States'' ''United States of America'' (Country (raw ! i))\<rparr>"
    by blast
  then have "Laid_Off_Count (df ! i) = fillna (mean (map Laid_Off_Count raw)) (Laid_Off_Count (raw ! i))"
    and "Funds_Raised (df ! i) = fillna (mean (map Funds_Raised raw)) (Funds_Raised (raw ! i))"
    and "Percentage (df ! i) = fillna (mean (map Percentage raw)) (Percentage (raw ! i))"
    by simp_all
  with fill load_data_rows(1)[OF assms(1)] show ?thesis by simp
qed

text \<open>
  The second row of \<open>ex_raw\<close> misses its count and its funds: the loaded row holds the
  means 13/2 and 20, and keeps its percentage.
\<close>

theorem load_data_mean_fill_witness:
  "load_data ex_parse ex_raw = Inr ex_loaded \<and> (1::nat) < length ex_raw \<and>
   dropna (map Laid_Off_Count ex_raw) \<noteq> [] \<and> dropna (map Funds_Raised ex_raw) \<noteq> [] \<and>
   dropna (map Percentage ex_raw) \<noteq> [] \<and>
   Laid_Off_Count (ex_loaded ! 1) \<noteq> None \<and>
   mean_filled [Some 5, None, Some 8] None (Laid_Off_Count (ex_loaded ! 1)) \<and>
   mean_filled [Some 10, None, Some 30] None (Funds_Raised (ex_loaded ! 1)) \<and>
   mean_filled [None, Some (1 / 4), Some (3 / 4)] (Some (1 / 4)) (Percentage (ex_loaded ! 1))"
proof -
  have h: "load_data ex_parse ex_raw = Inr ex_loaded" by code_simp
  have i: "(1::nat) < length ex_raw" by (simp add: ex_raw_def)
  have c: "map Laid_Off_Count ex_raw = [Some 5, None, Some 8]"
    "map Funds_Raised ex_raw = [Some 10, None, Some 30]"
    "map Percentage ex_raw = [None, Some (1 / 4), Some (3 / 4)]"
    "Laid_Off_Count (ex_raw ! Suc 0) = None" "Funds_Raised (ex_raw ! Suc 0) = None"
    "Percentage (ex_raw ! Suc 0) = Some (1 / 4)"
    by (simp_all add: ex_raw_def)
  from load_data_mean_fill[OF h i] h i show ?thesis
    by (simp add: c)
qed

text \<open>
  C1 as stated fails: the one count of \<open>ex_missing\<close> is missing, so the column has no
  mean, and the loaded column still holds the missing value.
\<close>

theorem load_data_leaves_missing_counterexample:
  "map_sum (\<lambda>e. e) (map Laid_Off_Count) (load_data ex_parse ex_missing) = Inr [None]"
  by code_simp

text \<open>
  C2. The normalisation step of line 24 keeps the number of rows; in every row the
  country is \<open>United States of America\<close> where it was \<open>United States\<close> and is
  unchanged otherwise; every other field of the row is unchanged.
\<close>

theorem normalize_Country_exact:
  assumes "i < length df"
  shows "length (normalize_Country df) = length df \<and>
    Country (normalize_Country df ! i) =
      (if Country (df ! i) = ''United States'' then ''United States of America''
       else Country (df ! i)) \<and>
    (normalize_Country df ! i)\<lparr>Country := Country (df ! i)\<rparr> = df ! i"
  using assms by (simp add: normalize_Country_def replace_value_def)

theorem normalize_Country_exact_witness:
  "(2::nat) < length ex_raw \<and> Country (ex_raw ! 2) = ''United States'' \<and>
   Country (normalize_Country ex_raw ! 2) = ''United States of America'' \<and>
   (normalize_Country ex_raw ! 2)\<lparr>Country := ''United States''\<rparr> = ex_raw ! 2"
proof -
  have i: "(2::nat) < length ex_raw" by (simp add: ex_raw_def)
  have c: "Country (ex_raw ! 2) = ''United States''" by (simp add: ex_raw_def)
  from normalize_Country_exact[OF i] i c show ?thesis by simp
qed

text \<open>
  C9. When \<open>load_data\<close> returns: a numeric column whose raw cells are all missing has
  no mean, and the returned column holds a missing value exactly when the raw frame is
  not empty and every raw cell of that column is missing. So the fill removes the missing
  values of a column only if the raw column holds at least one value.
\<close>

theorem mean_fill_needs_a_value:
  assumes "load_data parse raw = Inr df"
  shows
   "((\<forall>r\<in>set raw. Laid_Off_Count r = None) \<longrightarrow> mean (map Laid_Off_Count raw) = None) \<and>
    ((\<exists>r\<in>set df. Laid_Off_Count r = None) \<longleftrightarrow>
       raw \<noteq> [] \<and> (\<forall>r\<in>set raw. Laid_Off_Count r = None)) \<and>
    ((\<forall>r\<in>set raw. Funds_Raised r = None) \<longrightarrow> mean (map Funds_Raised raw) = None) \<and>
    ((\<exists>r\<in>set df. Funds_Raised r = None) \<longleftrightarrow>
       raw \<noteq> [] \<and> (\<forall>r\<in>set raw. Funds_Raised r = None)) \<and>
    ((\<forall>r\<in>set raw. Percentage r = None) \<longrightarrow> mean (map Percentage raw) = None) \<and>
    ((\<exists>r\<in>set df. Percentage r = None) \<longleftrightarrow>
       raw \<noteq> [] \<and> (\<forall>r\<in>set raw. Percentage r = None))"
proof -
  have col: "(\<exists>r\<in>set df. f r = None) \<longleftrightarrow> raw \<noteq> [] \<and> (\<forall>r\<in>set raw. f r = None)"
    if f: "\<And>i. i < length raw \<Longrightarrow> f (df ! i) = fillna (mean (map f raw)) (f (raw ! i))"
    for f :: "row \<Rightarrow> rat option"
  proof -
    have len: "length df = length raw" by (rule load_data_rows(1)[OF assms])
    have "(\<exists>r\<in>set df. f r = None) \<longleftrightarrow> (\<exists>i<length raw. f (df ! i) = None)"
      using len by (metis in_set_conv_nth)
    also have "\<dots> \<longleftrightarrow> (\<exists>i<length raw. f (raw ! i) = None \<and> mean (map f raw) = None)"
      by (auto simp: f fillna_None_iff)
    also have "\<dots> \<longleftrightarrow> (\<exists>r\<in>set raw. f r = None) \<and> (\<forall>r\<in>set raw. f r = None)"
      by (simp add: mean_None_iff) (metis in_set_conv_nth nth_mem)
    also have "\<dots> \<longleftrightarrow> raw \<noteq> [] \<and> (\<forall>r\<in>set raw. f r = None)"
      by (cases raw) auto
    finally show ?thesis .
  qed
  have rows: "i < length raw \<Longrightarrow>
      Laid_Off_Count (df ! i) = fillna (mean (map Laid_Off_Count raw)) (Laid_Off_Count (raw ! i)) \<and>
      Funds_Raised (df ! i) = fillna (mean (map Funds_Raised raw)) (Funds_Raised (raw ! i)) \<and>
      Percentage (df ! i) = fillna (mean (map Percentage raw)) (Percentage (raw ! i))" for i
    using load_data_rows(2)[OF assms, of i] by auto
  show ?thesis
    using col[of Laid_Off_Count] col[of Funds_Raised] col[of Percentage] rows
    by (simp add: mean_None_iff)
qed

theorem mean_fill_needs_a_value_witness:
  "load_data ex_parse ex_missing = Inr (assign_Date ex_missing [Dt \<lparr>year = 2021, month = 3, day = 1\<rparr>]) \<and>
   ex_missing \<noteq> [] \<and>
   map Laid_Off_Count ex_missing = [None] \<and> map Funds_Raised ex_missing = [None] \<and>
   map Percentage ex_missing = [None] \<and>
   mean (map Laid_Off_Count ex_missing) = None \<and>
   (\<exists>r\<in>set (assign_Date ex_missing [Dt \<lparr>year = 2021, month = 3, day = 1\<rparr>]). Laid_Off_Count r = None)"
proof -
  have h: "load_data ex_parse ex_missing = Inr (assign_Date ex_missing [Dt \<lparr>year = 2021, month = 3, day = 1\<rparr>])"
    by code_simp
  have a: "\<forall>r\<in>set ex_missing. Laid_Off_Count r = None" "\<forall>r\<in>set ex_missing. Funds_Raised r = None"
    "\<forall>r\<in>set ex_missing. Percentage r = None" "ex_missing \<noteq> []"
    by (simp_all add: ex_missing_def)
  have c: "map Laid_Off_Count ex_missing = [None]" "map Funds_Raised ex_missing = [None]"
    "map Percentage ex_missing = [None]"
    by (simp_all add: ex_missing_def)
  from mean_fill_needs_a_value[OF h] h a c show ?thesis by simp
qed

text \<open>
  C7. Two calls of the cached loader, one after the other, return the same result
  (the same rows, fields and fill values, or the same error); the calls leave the source
  as it was; and in a session that has no memo yet, that result is what \<open>load_data\<close>
  computes from the source.
\<close>

theorem load_data_cached_repeatable:
  "fst (load_data_cached parse (snd (load_data_cached parse s))) = fst (load_data_cached parse s) \<and>
   source (snd (load_data_cached parse s)) = source s \<and>
   (memo s = None \<longrightarrow> fst (load_data_cached parse s) = load_data parse (source s))"
  by (simp add: load_data_cached_def split: option.splits sum.splits)

theorem load_data_cached_repeatable_witness:
  "memo \<lparr>source = ex_raw, memo = None\<rparr> = None \<and>
   fst (load_data_cached ex_parse \<lparr>source = ex_raw, memo = None\<rparr>) = Inr ex_loaded \<and>
   fst (load_data_cached ex_parse (snd (load_data_cached ex_parse \<lparr>source = ex_raw, memo = None\<rparr>)))
     = Inr ex_loaded"
proof -
  have h: "load_data ex_parse ex_raw = Inr ex_loaded" by code_simp
  from load_data_cached_repeatable[of ex_parse "\<lparr>source = ex_raw, memo = None\<rparr>"] h
  show ?thesis by simp
qed

section \<open>Properties of the library operations\<close>

lemma boolean_index_map: "boolean_index df (map P df) = filter P df"
  by (induction df) (simp_all add: boolean_index_def)

lemma boolean_index_subset: "set (boolean_index df keep) \<subseteq> set df"
  by (auto simp: boolean_index_def dest: set_zip_leftD)

lemma dt_year_dates:
  "\<forall>r\<in>set df. \<exists>d. Date r = Dt d \<Longrightarrow> dt_year (map Date df) = Inr (map row_year df)"
  by (induction df) (auto simp: row_year_def)

lemma assign_Date_same: "assign_Date df (map Date df) = df"
  by (induction df) (simp_all add: assign_Date_def)

lemma ensure_datetime_dates:
  assumes "\<forall>r\<in>set df. \<exists>d. Date r = Dt d"
  shows "ensure_datetime parse df = Inr df"
proof -
  from assms have "\<forall>c\<in>set (map Date df). \<exists>d. c = Dt d" by auto
  then have "to_datetime parse (map Date df) = Inr (map Date df)"
    by (rule to_datetime_Dt_id)
  then show ?thesis
    by (simp add: ensure_datetime_def bind_result_def assign_Date_same)
qed

lemma load_data_dates:
  assumes "load_data parse raw = Inr df"
  shows "\<forall>r\<in>set df. \<exists>d. Date r = Dt d"
proof
  fix r assume "r \<in> set df"
  then obtain i where i: "i < length df" and r: "r = df ! i"
    by (auto simp: in_set_conv_nth)
  from i load_data_rows(1)[OF assms] have "i < length raw" by simp
  from load_data_rows(2)[OF assms this] r show "\<exists>d. Date r = Dt d" by auto
qed


lemma group_sum_Nil_iff: "group_sum kvs = [] \<longleftrightarrow> kvs = []"
proof -
  have "group_sum kvs = [] \<longleftrightarrow> set (sort (remdups (map fst kvs))) = {}"
    unfolding group_sum_def by (simp del: set_sort set_remdups)
  then show ?thesis by simp
qed

lemma sort_values_desc_Nil_iff: "sort_values_desc t = [] \<longleftrightarrow> t = []"
proof -
  have "length (sort_values_desc t) = length t" by (simp add: sort_values_desc_def)
  then show ?thesis by (metis length_0_conv)
qed










section \<open>Properties of the script\<close>

lemma df_filtered_filter:
  "df_filtered i c df = filter (\<lambda>r. Industry r = i \<and> Country r = c) df"
  by (simp add: df_filtered_def boolean_index_map)

lemma df_time_series_dates:
  assumes "\<forall>r\<in>set dff. \<exists>d. Date r = Dt d"
  shows "df_time_series dff = Inr (group_sum (zip (map row_year dff) (map Laid_Off_Count dff)))"
  by (simp add: df_time_series_def dt_year_dates[OF assms] bind_result_def)

lemma df_recent_years_dates:
  assumes "\<forall>r\<in>set df. \<exists>d. Date r = Dt d"
  shows "df_recent_years df =
    Inr (filter (\<lambda>r. (row_year r = 2022 \<or> row_year r = 2023) \<and> Industry r \<noteq> ''Other'') df)"
proof -
  have "map (\<lambda>(y, r). (y = 2022 \<or> y = 2023) \<and> Industry r \<noteq> ''Other'') (zip (map row_year df) df)
      = map (\<lambda>r. (row_year r = 2022 \<or> row_year r = 2023) \<and> Industry r \<noteq> ''Other'') df"
    by (induction df) simp_all
  then show ?thesis
    by (simp add: df_recent_years_def dt_year_dates[OF assms] bind_result_def boolean_index_map)
qed

lemma df_since_2020_dates:
  assumes "\<forall>r\<in>set df. \<exists>d. Date r = Dt d"
  shows "df_since_2020 df = Inr (filter (\<lambda>r. 2020 \<le> row_year r) df)"
proof -
  have "map (\<lambda>y. 2020 \<le> y) (map row_year df) = map (\<lambda>r. 2020 \<le> row_year r) df"
    by simp
  then show ?thesis
    by (simp add: df_since_2020_def dt_year_dates[OF assms] bind_result_def boolean_index_map
        del: map_map)
qed

lemma step_keeps_df:
  assumes f: "f \<in> set (script parse i c)"
    and d: "\<forall>r\<in>set (v_df s). \<exists>d. Date r = Dt d"
    and dff: "\<forall>r\<in>set (v_df_filtered s). \<exists>d. Date r = Dt d"
  shows "\<exists>s'. f s = Inr s' \<and> v_df s' = v_df s \<and> (\<forall>r\<in>set (v_df_filtered s'). \<exists>d. Date r = Dt d)"
proof -
  from f consider "f = line_47 i c" | "f = line_53" | "f = line_75" | "f = line_121"
    | "f = line_151" | "f = line_169" | "f = line_171 parse" | "f = line_172"
    | "f = line_175" | "f = line_237 i" | "f = line_287"
    by (auto simp: script_def)
  then show ?thesis
  proof cases
    case 1
    with d dff show ?thesis by (simp add: line_47_def df_filtered_filter)
  next
    case 2
    with d dff show ?thesis by (simp add: line_53_def)
  next
    case 3
    with d dff show ?thesis by (simp add: line_75_def)
  next
    case 4
    with d dff show ?thesis
      by (simp add: line_121_def top_industries_recent_def df_recent_years_dates bind_result_def)
  next
    case 5
    with d dff show ?thesis
      by (simp add: line_151_def df_time_series_dates bind_result_def)
  next
    case 6
    with d dff show ?thesis by (simp add: line_169_def)
  next
    case 7
    with d dff show ?thesis
      by (simp add: line_171_def ensure_datetime_dates bind_result_def)
  next
    case 8
    with d dff show ?thesis
      by (simp add: line_172_def df_since_2020_dates bind_result_def)
  next
    case 9
    with d dff show ?thesis by (simp add: line_175_def)
  next
    case 10
    with d dff show ?thesis by (simp add: line_237_def)
  next
    case 11
    with d dff show ?thesis by (simp add: line_287_def)
  qed
qed

lemma run_keeps:
  assumes "\<And>f s. f \<in> set fs \<Longrightarrow> I s \<Longrightarrow> \<exists>s'. f s = Inr s' \<and> I s'" and "I s"
  shows "\<exists>s'. run fs s = Inr s' \<and> I s'"
  using assms
proof (induction fs arbitrary: s)
  case Nil
  then show ?case by simp
next
  case (Cons f fs)
  from Cons.prems(1)[of f s] Cons.prems(2) obtain s1 where s1: "f s = Inr s1" "I s1"
    by auto
  from Cons.IH[of s1] Cons.prems(1) s1(2) obtain s' where "run fs s1 = Inr s'" "I s'"
    by auto
  with s1 show ?case by simp
qed

lemma run_prefix_keeps_df:
  assumes d: "\<forall>r\<in>set d. \<exists>dt. Date r = Dt dt"
  shows "\<exists>st. run (take n (script parse i c)) (initial_state d) = Inr st \<and> v_df st = d"
proof -
  let ?I = "\<lambda>s. v_df s = d \<and> (\<forall>r\<in>set (v_df_filtered s). \<exists>dt. Date r = Dt dt)"
  have step: "\<exists>s'. f s = Inr s' \<and> ?I s'"
    if "f \<in> set (take n (script parse i c))" and "?I s" for f s
  proof -
    from that(1) have "f \<in> set (script parse i c)" by (rule in_set_takeD)
    from step_keeps_df[OF this, of s] that(2) d show ?thesis by auto
  qed
  have init: "?I (initial_state d)" by (simp add: initial_state_def)
  have "\<exists>s'. run (take n (script parse i c)) (initial_state d) = Inr s' \<and> ?I s'"
    by (rule run_keeps[where I = ?I]) (use step init in blast)+
  then show ?thesis by blast
qed

text \<open>The variables at the end of the script, on a frame whose dates are parsed.\<close>

lemma run_script_result:
  assumes d: "\<forall>r\<in>set d. \<exists>dt. Date r = Dt dt"
  shows "\<exists>st. run (script parse i c) (initial_state d) = Inr st \<and>
     v_df st = d \<and>
     v_df_filtered st = filter (\<lambda>r. 2020 \<le> row_year r) d \<and>
     df_time_series (df_filtered i c d) = Inr (v_df_time_series st) \<and>
     v_df_time_series st =
       group_sum (zip (map row_year (df_filtered i c d)) (map Laid_Off_Count (df_filtered i c d))) \<and>
     v_top_companies_data st = top_companies_data (filter (\<lambda>r. 2020 \<le> row_year r) d) \<and>
     v_top_companies_filtered st = top_companies_filtered i (filter (\<lambda>r. 2020 \<le> row_year r) d)"
proof -
  have dff: "\<forall>r\<in>set (df_filtered i c d). \<exists>dt. Date r = Dt dt"
    using d by (simp add: df_filtered_filter)
  show ?thesis
    by (simp add: script_def initial_state_def line_47_def line_53_def line_75_def line_121_def
        line_151_def line_169_def line_171_def line_172_def line_175_def line_237_def
        line_287_def top_industries_recent_def df_recent_years_dates[OF d]
        df_time_series_dates[OF dff] ensure_datetime_dates[OF d] df_since_2020_dates[OF d]
        bind_result_def)
qed

text \<open>The whole script on \<open>ex_raw\<close>, with Finance and India selected.\<close>

lemma ex_dashboard: "dashboard ex_parse ''Finance'' ''India'' ex_raw = Inr ex_final"
  by code_simp




section \<open>Properties of the derived tables\<close>




text \<open>
  C5, as the code has it. No query checks its filter values. On every loaded frame and for
  every industry and country value, inside or outside the lists of the sidebar, the script
  runs to its end, and the yearly table and the table of the top ten companies of the
  industry are returned without an error.
\<close>

theorem filters_never_rejected:
  assumes "load_data parse raw = Inr d"
  shows "\<exists>st. dashboard parse industry_filter country_filter raw = Inr st \<and>
     df_time_series (df_filtered industry_filter country_filter d) = Inr (v_df_time_series st) \<and>
     v_top_companies_filtered st =
       top_companies_filtered industry_filter (filter (\<lambda>r. 2020 \<le> row_year r) d)"
proof -
  from run_script_result[OF load_data_dates[OF assms], of parse industry_filter country_filter]
  show ?thesis by (auto simp: dashboard_def assms bind_result_def)
qed

theorem filters_never_rejected_witness:
  "load_data ex_parse ex_raw = Inr ex_loaded \<and>
   (\<exists>st. dashboard ex_parse ''Retail'' ''Canada'' ex_raw = Inr st \<and>
      df_time_series (df_filtered ''Retail'' ''Canada'' ex_loaded) = Inr (v_df_time_series st) \<and>
      v_top_companies_filtered st =
        top_companies_filtered ''Retail'' (filter (\<lambda>r. 2020 \<le> row_year r) ex_loaded))"
proof -
  have h: "load_data ex_parse ex_raw = Inr ex_loaded" by code_simp
  from filters_never_rejected[OF h, of "''Retail''" "''Canada''"] h show ?thesis by simp
qed

text \<open>
  C5 as stated fails. Canada is not a country of the sidebar; the yearly table for Retail
  and Canada is returned, with the one row of 2021, and nothing is raised.
\<close>

theorem out_of_domain_country_counterexample:
  "map_sum (\<lambda>e. e) v_df_time_series (dashboard ex_parse ''Retail'' ''Canada'' ex_raw)
     = Inr [(2021, 13 / 2)]"
  by code_simp

text \<open>
  C6, as the code has it. On every loaded frame and for every selection the script raises
  nothing. The yearly table has no row exactly when no record has the selected industry
  and country. The table of the top ten companies of the industry does not look at the
  selected country: it has no row exactly when no record since 2020 has the selected
  industry.
\<close>

theorem empty_selection_views:
  assumes "load_data parse raw = Inr d"
  shows "\<exists>st. dashboard parse industry_filter country_filter raw = Inr st \<and>
     (v_df_time_series st = [] \<longleftrightarrow>
        filter (\<lambda>r. Industry r = industry_filter \<and> Country r = country_filter) d = []) \<and>
     (v_top_companies_filtered st = [] \<longleftrightarrow>
        filter (\<lambda>r. 2020 \<le> row_year r \<and> Industry r = industry_filter) d = [])"
proof -
  from run_script_result[OF load_data_dates[OF assms], of parse industry_filter country_filter]
  obtain st where st: "run (script parse industry_filter country_filter) (initial_state d) = Inr st"
    and ts: "v_df_time_series st =
       group_sum (zip (map row_year (df_filtered industry_filter country_filter d))
         (map Laid_Off_Count (df_filtered industry_filter country_filter d)))"
    and tc: "v_top_companies_filtered st =
       top_companies_filtered industry_filter (filter (\<lambda>r. 2020 \<le> row_year r) d)"
    by blast
  have "v_df_time_series st = [] \<longleftrightarrow>
      filter (\<lambda>r. Industry r = industry_filter \<and> Country r = country_filter) d = []"
    by (simp add: ts group_sum_Nil_iff df_filtered_filter)
  moreover have "v_top_companies_filtered st = [] \<longleftrightarrow>
      filter (\<lambda>r. 2020 \<le> row_year r \<and> Industry r = industry_filter) d = []"
    by (simp add: tc top_companies_filtered_def sort_values_desc_Nil_iff group_sum_Nil_iff
        boolean_index_map conj_commute)
  ultimately show ?thesis
    using st by (auto simp: dashboard_def assms bind_result_def)
qed

theorem empty_selection_views_witness:
  "load_data ex_parse ex_raw = Inr ex_loaded \<and>
   filter (\<lambda>r. Industry r = ''Finance'' \<and> Country r = ''India'') ex_loaded = [] \<and>
   (\<exists>st. dashboard ex_parse ''Finance'' ''India'' ex_raw = Inr st \<and> v_df_time_series st = [])"
proof -
  have h: "load_data ex_parse ex_raw = Inr ex_loaded" by code_simp
  have e: "filter (\<lambda>r. Industry r = ''Finance'' \<and> Country r = ''India'') ex_loaded = []"
    by (simp add: ex_loaded_def)
  from empty_selection_views[OF h, of "''Finance''" "''India''"] h e show ?thesis by auto
qed

text \<open>
  C6 as stated fails for the second table. No record of \<open>ex_loaded\<close> has Finance and
  India, yet the table of the top ten companies of Finance has the row of Cobalt.
\<close>

theorem empty_selection_counterexample:
  "load_data ex_parse ex_raw = Inr ex_loaded \<and>
   df_filtered ''Finance'' ''India'' ex_loaded = [] \<and>
   map_sum (\<lambda>e. e) v_top_companies_filtered (dashboard ex_parse ''Finance'' ''India'' ex_raw)
     = Inr [((''Cobalt'', ''Finance''), 8)]"
  by code_simp

text \<open>
  C8. After a successful load, every prefix of the script, and the whole script, runs
  without an error and leaves \<open>df\<close> equal to the frame that \<open>load_data\<close>
  returned; line 171 writes the Date column back with the values it had.
\<close>

theorem script_keeps_df:
  assumes "load_data parse raw = Inr d"
  shows "(\<exists>st. run (take n (script parse industry_filter country_filter)) (initial_state d) = Inr st \<and>
            v_df st = d) \<and>
         (\<exists>st. dashboard parse industry_filter country_filter raw = Inr st \<and> v_df st = d)"
proof -
  note dates = load_data_dates[OF assms]
  from run_prefix_keeps_df[OF dates, of "length (script parse industry_filter country_filter)"
      parse industry_filter country_filter]
  have "\<exists>st. dashboard parse industry_filter country_filter raw = Inr st \<and> v_df st = d"
    by (simp add: dashboard_def assms bind_result_def)
  with run_prefix_keeps_df[OF dates, of n parse industry_filter country_filter]
  show ?thesis by blast
qed

theorem script_keeps_df_witness:
  "load_data ex_parse ex_raw = Inr ex_loaded \<and>
   (\<exists>st. run (take 7 (script ex_parse ''Finance'' ''India'')) (initial_state ex_loaded) = Inr st \<and>
      v_df st = ex_loaded) \<and>
   (\<exists>st. dashboard ex_parse ''Finance'' ''India'' ex_raw = Inr st \<and> v_df st = ex_loaded)"
proof -
  have h: "load_data ex_parse ex_raw = Inr ex_loaded" by code_simp
  from script_keeps_df[OF h, where n = 7 and industry_filter = "''Finance''"
      and country_filter = "''India''"] h show ?thesis by simp
qed

end
